theory Spec2Isabelle
  imports Main
begin

section \<open>Python values as the pipeline sees them\<close>

text \<open>
  The scan report and the remediation response are whatever \<^verbatim>\<open>json.load\<close> and
  \<^verbatim>\<open>response.json()\<close> return: \<^verbatim>\<open>None\<close>, a bool, an int, a float, a str, a list or a
  dict. A float is kept as the two things this program can observe of it, its truth value
  and its \<^verbatim>\<open>repr\<close>. A dict is an association list in insertion order whose keys are
  distinct (\<^verbatim>\<open>json.load\<close> keeps one entry per key); a str is a list of code points below
  256.
\<close>

datatype pyfloat = PyFloat (nonzero: bool) (repr: string)

datatype json =
    JNull
  | JBool bool
  | JInt int
  | JFloat pyfloat
  | JStr string
  | JArr "json list"
  | JObj "(string \<times> json) list"

text \<open>
  Exceptions that leave \<^verbatim>\<open>main\<close>: the two the interpreter raises on a value of the wrong
  type, and whatever a library call raised that no handler matched.
\<close>

datatype py_exn =
    TypeError
  | AttributeError
  | Uncaught string

subsection \<open>\<^verbatim>\<open>bool(v)\<close>\<close>

fun truthy :: "json \<Rightarrow> bool" where
  "truthy JNull = False"
| "truthy (JBool b) = b"
| "truthy (JInt i) = (i \<noteq> 0)"
| "truthy (JFloat x) = nonzero x"
| "truthy (JStr s) = (s \<noteq> [])"
| "truthy (JArr xs) = (xs \<noteq> [])"
| "truthy (JObj kvs) = (kvs \<noteq> [])"

subsection \<open>\<^verbatim>\<open>type(v).__name__\<close> and the messages of the interpreter\<close>

fun type_name :: "json \<Rightarrow> string" where
  "type_name JNull = ''NoneType''"
| "type_name (JBool b) = ''bool''"
| "type_name (JInt i) = ''int''"
| "type_name (JFloat x) = ''float''"
| "type_name (JStr s) = ''str''"
| "type_name (JArr xs) = ''list''"
| "type_name (JObj kvs) = ''dict''"

definition quote :: string where
  "quote = [CHR 0x27]"

definition newline :: string where
  "newline = [CHR 0x0A]"

definition no_attribute :: "json \<Rightarrow> string \<Rightarrow> string" where
  "no_attribute v a =
     quote @ type_name v @ quote @ '' object has no attribute '' @ quote @ a @ quote"

subsection \<open>\<^verbatim>\<open>str(v)\<close> and \<^verbatim>\<open>repr(v)\<close>\<close>

definition digit_char :: "nat \<Rightarrow> char" where
  "digit_char d = char_of (48 + d)"

function str_nat :: "nat \<Rightarrow> string" where
  "str_nat n = (if n < 10 then [digit_char n] else str_nat (n div 10) @ [digit_char (n mod 10)])"
  by pat_completeness auto
termination
  by (relation "measure id") auto

declare str_nat.simps [simp del]

definition str_int :: "int \<Rightarrow> string" where
  "str_int i = (if i < 0 then CHR ''-'' # str_nat (nat (- i)) else str_nat (nat i))"

definition hex_char :: "nat \<Rightarrow> char" where
  "hex_char d = (if d < 10 then char_of (48 + d) else char_of (87 + d))"

text \<open>
  \<^verbatim>\<open>str.isprintable\<close> on the code points below 256: the C0 and C1 controls, DEL, the
  no-break space and the soft hyphen are not printable.
\<close>

definition printable :: "char \<Rightarrow> bool" where
  "printable c =
     (let n = (of_char c :: nat)
      in 32 \<le> n \<and> n \<noteq> 127 \<and> \<not> (128 \<le> n \<and> n \<le> 160) \<and> n \<noteq> 173)"

definition repr_char :: "char \<Rightarrow> char \<Rightarrow> string" where
  "repr_char q c =
     (if c = q \<or> c = CHR 0x5C then [CHR 0x5C, c]
      else if c = CHR 0x09 then [CHR 0x5C, CHR ''t'']
      else if c = CHR 0x0A then [CHR 0x5C, CHR ''n'']
      else if c = CHR 0x0D then [CHR 0x5C, CHR ''r'']
      else if printable c then [c]
      else [CHR 0x5C, CHR ''x'',
            hex_char ((of_char c :: nat) div 16), hex_char ((of_char c :: nat) mod 16)])"

definition repr_str :: "string \<Rightarrow> string" where
  "repr_str s =
     (let q = (if CHR 0x27 \<in> set s \<and> CHR 0x22 \<notin> set s then CHR 0x22 else CHR 0x27)
      in q # concat (map (repr_char q) s) @ [q])"

fun join :: "string \<Rightarrow> string list \<Rightarrow> string" where
  "join sep [] = []"
| "join sep [x] = x"
| "join sep (x # y # ys) = x @ sep @ join sep (y # ys)"

primrec py_repr :: "json \<Rightarrow> string" where
  "py_repr JNull = ''None''"
| "py_repr (JBool b) = (if b then ''True'' else ''False'')"
| "py_repr (JInt i) = str_int i"
| "py_repr (JFloat x) = repr x"
| "py_repr (JStr s) = repr_str s"
| "py_repr (JArr xs) = ''['' @ join '', '' (map py_repr xs) @ '']''"
| "py_repr (JObj kvs) =
     ''{'' @ join '', '' (map (\<lambda>kv. repr_str (fst kv) @ '': '' @ snd kv)
                             (map (map_prod id py_repr) kvs)) @ ''}''"

definition py_str :: "json \<Rightarrow> string" where
  "py_str v = (case v of JStr s \<Rightarrow> s | _ \<Rightarrow> py_repr v)"

subsection \<open>\<^verbatim>\<open>dict.get\<close>, \<^verbatim>\<open>in\<close>, subscripting and iteration\<close>

definition dict_get :: "(string \<times> json) list \<Rightarrow> string \<Rightarrow> json \<Rightarrow> json" where
  "dict_get kvs k d = (case map_of kvs k of None \<Rightarrow> d | Some v \<Rightarrow> v)"

fun is_substring :: "string \<Rightarrow> string \<Rightarrow> bool" where
  "is_substring sub [] = (sub = [])"
| "is_substring sub (c # cs) = (take (length sub) (c # cs) = sub \<or> is_substring sub cs)"

text \<open>\<^verbatim>\<open>k in v\<close> for a str \<open>k\<close>.\<close>

definition py_contains :: "json \<Rightarrow> string \<Rightarrow> py_exn + bool" where
  "py_contains v k =
     (case v of
        JObj kvs \<Rightarrow> Inr (k \<in> set (map fst kvs))
      | JArr xs \<Rightarrow> Inr (JStr k \<in> set xs)
      | JStr s \<Rightarrow> Inr (is_substring k s)
      | _ \<Rightarrow> Inl TypeError)"

text \<open>\<^verbatim>\<open>v[k]\<close> for a str \<open>k\<close> that, for a dict, is known to be a key.\<close>

definition py_getitem :: "json \<Rightarrow> string \<Rightarrow> py_exn + json" where
  "py_getitem v k =
     (case v of
        JObj kvs \<Rightarrow> Inr (dict_get kvs k JNull)
      | _ \<Rightarrow> Inl TypeError)"

text \<open>The items a \<^verbatim>\<open>for\<close> loop over \<open>v\<close> visits.\<close>

definition py_iter :: "json \<Rightarrow> py_exn + json list" where
  "py_iter v =
     (case v of
        JArr xs \<Rightarrow> Inr xs
      | JObj kvs \<Rightarrow> Inr (map (JStr \<circ> fst) kvs)
      | JStr s \<Rightarrow> Inr (map (\<lambda>c. JStr [c]) s)
      | _ \<Rightarrow> Inl TypeError)"

subsection \<open>\<^verbatim>\<open>str.strip()\<close> and \<^verbatim>\<open>str.upper()\<close>\<close>

definition is_space :: "char \<Rightarrow> bool" where
  "is_space c =
     (let n = (of_char c :: nat)
      in (9 \<le> n \<and> n \<le> 13) \<or> (28 \<le> n \<and> n \<le> 32) \<or> n = 133 \<or> n = 160)"

definition strip :: "string \<Rightarrow> string" where
  "strip s = rev (dropWhile is_space (rev (dropWhile is_space s)))"

text \<open>
  Upper case on the code points below 256: the ASCII letters and the Latin-1 letters
  whose upper case is below 256 too. The three whose upper case lies outside (the micro
  sign, the sharp s and y with diaeresis) are kept; the tool names are ASCII.
\<close>

definition upper_char :: "char \<Rightarrow> char" where
  "upper_char c =
     (let n = (of_char c :: nat)
      in if (97 \<le> n \<and> n \<le> 122) \<or> (224 \<le> n \<and> n \<le> 254 \<and> n \<noteq> 247)
         then char_of (n - 32) else c)"

definition upper :: "string \<Rightarrow> string" where
  "upper s = map upper_char s"

section \<open>The world outside the process\<close>

text \<open>
  Everything the programs call outside themselves is read from a \<open>world\<close>: the clone, the
  child process, the output file as it is found once the child has exited, and the HTTP
  service. An exception of a library call carries the text that \<^verbatim>\<open>str(e)\<close> gives; only
  subclasses of \<^verbatim>\<open>Exception\<close> are modelled. A wall-clock duration arrives as the text
  that the format \<^verbatim>\<open>:.2f\<close> gives for it.
\<close>

datatype clone_outcome =
    Cloned
  | GitCommandError string
  | CloneRaised string

datatype proc_outcome =
    Exited int string
  | FileNotFoundError string
  | SpawnRaised string

datatype artifact =
    Missing
  | Unreadable string
  | Document json

datatype raised =
    RequestException string
  | OtherException string

fun message :: "raised \<Rightarrow> string" where
  "message (RequestException e) = e"
| "message (OtherException e) = e"

record response =
  status_code :: int
  response_text :: string
  body :: "raised + json"

datatype http_outcome =
    Raised raised
  | Responded response string

record request =
  url :: string
  payload :: json
  timeout :: "nat option"

record world =
  temp_dir :: string
  clone :: "string \<Rightarrow> string \<Rightarrow> clone_outcome"
  spawn :: "string list \<Rightarrow> proc_outcome"
  files :: "string \<Rightarrow> artifact"
  http :: "nat \<Rightarrow> request \<Rightarrow> http_outcome"

text \<open>
  What a run leaves behind: the log records in the order they were emitted, and the HTTP
  requests in the order they were issued. The \<open>n\<close>-th request is answered by
  \<open>http w n\<close>.
\<close>

datatype level = INFO | ERROR

record state =
  log :: "(level \<times> string) list"
  sent :: "request list"

definition logging_info :: "string \<Rightarrow> state \<Rightarrow> state" where
  "logging_info m s = s\<lparr>log := log s @ [(INFO, m)]\<rparr>"

definition logging_error :: "string \<Rightarrow> state \<Rightarrow> state" where
  "logging_error m s = s\<lparr>log := log s @ [(ERROR, m)]\<rparr>"

definition requests_post :: "world \<Rightarrow> request \<Rightarrow> state \<Rightarrow> http_outcome \<times> state" where
  "requests_post w r s = (http w (length (sent s)) r, s\<lparr>sent := sent s @ [r]\<rparr>)"

section \<open>\<^verbatim>\<open>main.py\<close>: the scan-and-remediate pipeline\<close>

definition REMOTE_MODEL_URL :: string where
  "REMOTE_MODEL_URL = ''http://192.168.1.13:9000/generate''"

definition clone_repo :: "world \<Rightarrow> string \<Rightarrow> string \<Rightarrow> state \<Rightarrow> (py_exn + bool) \<times> state" where
  "clone_repo w repo_url dir s =
     (let s1 = logging_info (''Cloning repository: '' @ repo_url @ '' into '' @ dir) s
      in case clone w repo_url dir of
           Cloned \<Rightarrow> (Inr True, logging_info ''Cloning successful.'' s1)
         | GitCommandError e \<Rightarrow> (Inr False, logging_error (''Error cloning repository: '' @ e) s1)
         | CloneRaised e \<Rightarrow> (Inl (Uncaught e), s1))"

definition commands :: "string \<Rightarrow> string \<Rightarrow> (string \<times> string list) list" where
  "commands repo_path output_file =
     [(''bandit'', [''bandit'', ''-r'', repo_path, ''-f'', ''json'', ''-o'', output_file]),
      (''semgrep'', [''semgrep'', ''--config=auto'', ''--json'', ''-o'', output_file, repo_path])]"

text \<open>The value returned is the decoded document, or \<^verbatim>\<open>None\<close>, which is \<open>JNull\<close>.\<close>

definition run_sast_tool :: "world \<Rightarrow> string \<Rightarrow> string \<Rightarrow> string \<Rightarrow> state \<Rightarrow> json \<times> state" where
  "run_sast_tool w tool_name repo_path output_file s =
     (let s1 = logging_info (''Running '' @ tool_name @ '' on: '' @ repo_path) s
      in case map_of (commands repo_path output_file) tool_name of
           None \<Rightarrow> (JNull, logging_error (''Unsupported SAST tool: '' @ tool_name) s1)
         | Some argv \<Rightarrow>
             (case spawn w argv of
                FileNotFoundError e \<Rightarrow>
                  (JNull, logging_error (''Error: '' @ quote @ tool_name @ quote
                                          @ '' not found. Install it before running.'') s1)
              | SpawnRaised e \<Rightarrow>
                  (JNull, logging_error (''Error running '' @ tool_name @ '': '' @ e) s1)
              | Exited code took \<Rightarrow>
                  (let s2 = logging_info (tool_name @ '' scan completed in '' @ took
                                          @ '' seconds.'') s1
                   in case files w output_file of
                        Missing \<Rightarrow> (JNull, s2)
                      | Unreadable e \<Rightarrow>
                          (JNull, logging_error (''Error running '' @ tool_name @ '': '' @ e) s2)
                      | Document d \<Rightarrow> (d, s2))))"

text \<open>\<^verbatim>\<open>finding.get(k, 'N/A')\<close> inside an f-string.\<close>

definition field :: "(string \<times> json) list \<Rightarrow> string \<Rightarrow> string" where
  "field kvs k = py_str (dict_get kvs k (JStr ''N/A''))"

definition build_prompt :: "(string \<times> json) list \<Rightarrow> string" where
  "build_prompt kvs =
     ''Given this security finding: '' @ field kvs ''issue_text'' @ '' ''
     @ ''in file '' @ field kvs ''filename'' @ '' at line '' @ field kvs ''line_number'' @ '', ''
     @ ''generate a concise and correct security fix. Keep the response under 100 words.''"

definition suggestion_request :: "(string \<times> json) list \<Rightarrow> request" where
  "suggestion_request kvs =
     \<lparr>url = REMOTE_MODEL_URL, payload = JObj [(''prompt'', JStr (build_prompt kvs))],
      timeout = None\<rparr>"

text \<open>
  The value returned is a str or \<^verbatim>\<open>None\<close>. Every exception raised in the body is caught
  by its \<^verbatim>\<open>except Exception\<close>, the \<^verbatim>\<open>AttributeError\<close> of a \<^verbatim>\<open>.get\<close> or a \<^verbatim>\<open>.strip\<close> on
  a value that has no such method included.
\<close>

definition get_llm_suggestion :: "world \<Rightarrow> json \<Rightarrow> state \<Rightarrow> string option \<times> state" where
  "get_llm_suggestion w finding s =
     (let failed = (\<lambda>e. logging_error (''Error getting LLM suggestion: '' @ e))
      in case finding of
           JObj kvs \<Rightarrow>
             (case requests_post w (suggestion_request kvs) s of
                (Raised e, s1) \<Rightarrow> (None, failed (message e) s1)
              | (Responded r took, s1) \<Rightarrow>
                  if status_code r = 200 then
                    (case body r of
                       Inl e \<Rightarrow> (None, failed (message e) s1)
                     | Inr (JObj b) \<Rightarrow>
                         (case dict_get b ''generated_text'' (JStr []) of
                            JStr t \<Rightarrow>
                              (Some (strip t),
                               logging_info (''LLM suggestion generated in '' @ took
                                             @ '' seconds.'') s1)
                          | v \<Rightarrow> (None, failed (no_attribute v ''strip'') s1))
                     | Inr v \<Rightarrow> (None, failed (no_attribute v ''get'') s1))
                  else
                    (None, logging_error (''Error: '' @ str_int (status_code r) @ '', ''
                                          @ response_text r) s1))
         | v \<Rightarrow> (None, failed (no_attribute v ''get'') s))"

text \<open>The four messages logged for a finding: lines 116 to 118 and 120 of \<^verbatim>\<open>main.py\<close>.\<close>

definition severity_line :: "(string \<times> json) list \<Rightarrow> string" where
  "severity_line kvs = ''Severity: '' @ field kvs ''issue_severity''"

definition issue_line :: "(string \<times> json) list \<Rightarrow> string" where
  "issue_line kvs = ''Issue: '' @ field kvs ''issue_text''"

definition file_line :: "(string \<times> json) list \<Rightarrow> string" where
  "file_line kvs = ''File: '' @ field kvs ''filename'' @ '':'' @ field kvs ''line_number''"

definition suggestion_line :: "string option \<Rightarrow> string" where
  "suggestion_line suggestion =
     ''Suggestion: ''
     @ (case suggestion of
          Some t \<Rightarrow> if t \<noteq> [] then strip t else ''No suggestion available.''
        | None \<Rightarrow> ''No suggestion available.'')
     @ newline"

text \<open>One pass through the body of the loop of \<^verbatim>\<open>print_results\<close>.\<close>

definition report_finding :: "world \<Rightarrow> json \<Rightarrow> state \<Rightarrow> (py_exn + unit) \<times> state" where
  "report_finding w finding s =
     (case finding of
        JObj kvs \<Rightarrow>
          (let s1 = logging_info (severity_line kvs) s;
               s2 = logging_info (issue_line kvs) s1;
               s3 = logging_info (file_line kvs) s2;
               (suggestion, s4) = get_llm_suggestion w finding s3
           in (Inr (), logging_info (suggestion_line suggestion) s4))
      | v \<Rightarrow> (Inl AttributeError, s))"

fun report_findings :: "world \<Rightarrow> json list \<Rightarrow> state \<Rightarrow> (py_exn + unit) \<times> state" where
  "report_findings w [] s = (Inr (), s)"
| "report_findings w (finding # rest) s =
     (case report_finding w finding s of
        (Inl e, s1) \<Rightarrow> (Inl e, s1)
      | (Inr u, s1) \<Rightarrow> report_findings w rest s1)"

definition report_header :: "string \<Rightarrow> string" where
  "report_header tool_name =
     newline @ ''--- '' @ upper tool_name @ '' Scan Results with LLM Suggestions ---''"

definition print_results :: "world \<Rightarrow> string \<Rightarrow> json \<Rightarrow> state \<Rightarrow> (py_exn + unit) \<times> state" where
  "print_results w tool_name results s =
     (let no_results = (Inr (), logging_info (''No results from '' @ tool_name @ ''.'') s)
      in if \<not> truthy results then no_results
         else case py_contains results ''results'' of
                Inl e \<Rightarrow> (Inl e, s)
              | Inr False \<Rightarrow> no_results
              | Inr True \<Rightarrow>
                  (let s1 = logging_info (report_header tool_name) s
                   in case py_getitem results ''results'' of
                        Inl e \<Rightarrow> (Inl e, s1)
                      | Inr v \<Rightarrow>
                          (case py_iter v of
                             Inl e \<Rightarrow> (Inl e, s1)
                           | Inr findings \<Rightarrow> report_findings w findings s1)))"

text \<open>\<^verbatim>\<open>os.path.join(a, b)\<close> on POSIX.\<close>

definition os_path_join :: "string \<Rightarrow> string \<Rightarrow> string" where
  "os_path_join a b =
     (if b \<noteq> [] \<and> hd b = CHR ''/'' then b
      else if a = [] \<or> last a = CHR ''/'' then a @ b
      else a @ ''/'' @ b)"

text \<open>
  \<open>main\<close> after the arguments are parsed: \<open>tool\<close> is \<^verbatim>\<open>args.tool\<close>, one of the two
  choices of the parser. The result \<open>Inr ()\<close> is a normal return, \<open>Inl e\<close> an exception
  that leaves \<open>main\<close>.
\<close>

definition main :: "world \<Rightarrow> string \<Rightarrow> string \<Rightarrow> state \<Rightarrow> (py_exn + unit) \<times> state" where
  "main w repo_url tool s =
     (case clone_repo w repo_url (temp_dir w) s of
        (Inl e, s1) \<Rightarrow> (Inl e, s1)
      | (Inr False, s1) \<Rightarrow> (Inr (), s1)
      | (Inr True, s1) \<Rightarrow>
          (let output_file = os_path_join (temp_dir w) ''sast_results.json'';
               (results, s2) = run_sast_tool w tool (temp_dir w) output_file s1
           in if truthy results then print_results w tool results s2
              else (Inr (), logging_info (newline @ ''No security findings detected.'') s2)))"


section \<open>\<^verbatim>\<open>remote_LLM.py\<close>: the remediation service\<close>

record generate_request =
  prompt :: string
  model :: string
  max_length :: int
  temperature :: pyfloat

datatype http_exception = HTTPException int string

definition OLLAMA_API_URL :: string where
  "OLLAMA_API_URL = ''http://192.168.1.13:11434/api/generate''"

definition OLLAMA_TIMEOUT :: nat where
  "OLLAMA_TIMEOUT = 300"

definition ollama_request :: "generate_request \<Rightarrow> request" where
  "ollama_request req =
     \<lparr>url = OLLAMA_API_URL,
      payload = JObj [(''prompt'', JStr (prompt req)),
                      (''model'', JStr (model req)),
                      (''options'', JObj [(''temperature'', JFloat (temperature req)),
                                         (''num_predict'', JInt (max_length req))])],
      timeout = Some OLLAMA_TIMEOUT\<rparr>"

text \<open>\<^verbatim>\<open>len(v)\<close>, with the message of the \<^verbatim>\<open>TypeError\<close> where \<open>v\<close> has no length.\<close>

definition py_len :: "json \<Rightarrow> string + nat" where
  "py_len v =
     (case v of
        JStr s \<Rightarrow> Inr (length s)
      | JArr xs \<Rightarrow> Inr (length xs)
      | JObj kvs \<Rightarrow> Inr (length kvs)
      | _ \<Rightarrow> Inl (''object of type '' @ quote @ type_name v @ quote @ '' has no len()''))"

text \<open>
  The handler of \<^verbatim>\<open>POST /generate\<close>. \<open>Inr d\<close> is the dict it returns (a 200 response),
  \<open>Inl (HTTPException c d)\<close> the exception that leaves it (a response of status \<open>c\<close>).
  Its first handler takes a \<^verbatim>\<open>requests.RequestException\<close>, its second every other
  exception, the \<^verbatim>\<open>HTTPException\<close> raised in the body included; \<open>exc_str\<close> is the
  \<^verbatim>\<open>__str__\<close> of that class, which belongs to the web framework.
\<close>

definition generate_text ::
  "(int \<Rightarrow> string \<Rightarrow> string) \<Rightarrow> world \<Rightarrow> generate_request \<Rightarrow> state
     \<Rightarrow> (http_exception + json) \<times> state" where
  "generate_text exc_str w req s =
     (let unavailable = (\<lambda>e s'.
            (Inl (HTTPException 503 ''Ollama service unavailable''),
             logging_error (''Error connecting to Ollama: '' @ e) s'));
          unexpected = (\<lambda>e s'.
            (Inl (HTTPException 500 (''Internal server error: '' @ e)),
             logging_error (''Unexpected error in generate_text: '' @ e) s'));
          handle = (\<lambda>e. case e of RequestException m \<Rightarrow> unavailable m
                                  | OtherException m \<Rightarrow> unexpected m);
          s0 = logging_info (''Received prompt: '' @ take 100 (prompt req) @ ''...'') s
      in case requests_post w (ollama_request req) s0 of
           (Raised e, s1) \<Rightarrow> handle e s1
         | (Responded r took, s1) \<Rightarrow>
             if status_code r \<noteq> 200 then
               unexpected (exc_str 500 ''Error communicating with Ollama API'')
                 (logging_error (''Ollama API error: '' @ str_int (status_code r) @ '' - ''
                                 @ response_text r) s1)
             else
               (case body r of
                  Inl e \<Rightarrow> handle e s1
                | Inr (JObj response_data) \<Rightarrow>
                    (let generated_text = dict_get response_data ''response'' (JStr [])
                     in case py_len generated_text of
                          Inl e \<Rightarrow> unexpected e s1
                        | Inr n \<Rightarrow>
                            (let s2 = logging_info (''Generated response of length ''
                                                    @ str_nat n) s1
                             in case generated_text of
                                  JStr t \<Rightarrow>
                                    (Inr (JObj [(''generated_text'', JStr (prompt req @ t))]), s2)
                                | v \<Rightarrow>
                                    unexpected (''can only concatenate str (not ''
                                                @ [CHR 0x22] @ type_name v @ [CHR 0x22]
                                                @ '') to str'') s2))
                | Inr v \<Rightarrow> unexpected (no_attribute v ''get'') s1))"

section \<open>Vocabulary of the properties\<close>

text \<open>A finding is a dict; \<open>items\<close> reads its entries.\<close>

fun is_dict :: "json \<Rightarrow> bool" where
  "is_dict (JObj kvs) = True"
| "is_dict v = False"

fun items :: "json \<Rightarrow> (string \<times> json) list" where
  "items (JObj kvs) = kvs"
| "items v = []"

text \<open>
  A remediation request has failed when the transport raised, when the status is outside
  200..299, or when the body is malformed: not JSON, not an object, or an object whose
  \<^verbatim>\<open>generated_text\<close> is not a string.
\<close>

definition malformed_body :: "response \<Rightarrow> bool" where
  "malformed_body r =
     (case body r of
        Inl e \<Rightarrow> True
      | Inr (JObj b) \<Rightarrow>
          (case dict_get b ''generated_text'' (JStr []) of JStr t \<Rightarrow> False | _ \<Rightarrow> True)
      | Inr _ \<Rightarrow> True)"

definition remediation_failed :: "http_outcome \<Rightarrow> bool" where
  "remediation_failed out =
     (case out of
        Raised e \<Rightarrow> True
      | Responded r took \<Rightarrow> \<not> (200 \<le> status_code r \<and> status_code r < 300) \<or> malformed_body r)"

definition unavailable :: "level \<times> string" where
  "unavailable = (INFO, ''Suggestion: No suggestion available.'' @ newline)"


section \<open>Concrete runs\<close>

definition fresh :: state where
  "fresh = \<lparr>log = [], sent = []\<rparr>"

definition password_finding :: "(string \<times> json) list" where
  "password_finding =
     [(''issue_severity'', JStr ''HIGH''), (''issue_text'', JStr ''hardcoded password''),
      (''filename'', JStr ''app.py''), (''line_number'', JInt 42)]"

definition run_of ::
  "clone_outcome \<Rightarrow> proc_outcome \<Rightarrow> artifact \<Rightarrow> (nat \<Rightarrow> http_outcome) \<Rightarrow> world" where
  "run_of c p a h =
     \<lparr>temp_dir = ''/tmp/scan'', clone = (\<lambda>u d. c), spawn = (\<lambda>argv. p),
      files = (\<lambda>path. if path = ''/tmp/scan/sast_results.json'' then a else Missing),
      http = (\<lambda>n r. h n)\<rparr>"

definition answer_text :: "string \<Rightarrow> http_outcome" where
  "answer_text t =
     Responded \<lparr>status_code = 200, response_text = ''ok'',
                body = Inr (JObj [(''generated_text'', JStr t)])\<rparr> ''0.80''"

definition answer_503 :: http_outcome where
  "answer_503 =
     Responded \<lparr>status_code = 503, response_text = ''Ollama service unavailable'',
                body = Inr (JObj [(''detail'', JStr ''Ollama service unavailable'')])\<rparr> ''0.10''"

definition answer_empty_object :: http_outcome where
  "answer_empty_object =
     Responded \<lparr>status_code = 200, response_text = ''{}'', body = Inr (JObj [])\<rparr> ''0.20''"

definition ollama_says :: "string \<Rightarrow> http_outcome" where
  "ollama_says t =
     Responded \<lparr>status_code = 200, response_text = ''ok'',
                body = Inr (JObj [(''model'', JStr ''llama2''), (''response'', JStr t)])\<rparr>
               ''2.00''"

definition eval_finding :: "(string \<times> json) list" where
  "eval_finding =
     [(''issue_severity'', JStr ''MEDIUM''), (''issue_text'', JStr ''use of eval''),
      (''filename'', JStr ''run.py''), (''line_number'', JInt 7)]"

definition two_findings :: "(string \<times> json) list" where
  "two_findings =
     [(''errors'', JArr []), (''results'', JArr [JObj password_finding, JObj eval_finding])]"

definition bandit_argv :: "string list" where
  "bandit_argv =
     [''bandit'', ''-r'', ''/tmp/scan'', ''-f'', ''json'', ''-o'', ''/tmp/scan/sast_results.json'']"

text \<open>A service that is down for every call, and one that answers the first call only.\<close>

definition service_down :: world where
  "service_down =
     run_of Cloned (Exited 1 ''0.50'') (Document (JObj two_findings)) (\<lambda>n. answer_503)"

definition service_flaky :: world where
  "service_flaky =
     run_of Cloned (Exited 1 ''0.50'') (Document (JObj two_findings))
       (\<lambda>n. if n = 0 then answer_text ''Use environment variables.'' else answer_503)"

definition clean_report :: "(string \<times> json) list" where
  "clean_report = [(''errors'', JArr []), (''results'', JArr [])]"

definition example_url :: string where
  "example_url = ''https://example.org/app.git''"

definition fix_request :: generate_request where
  "fix_request =
     \<lparr>prompt = ''Fix: '', model = ''llama2'', max_length = 750,
      temperature = PyFloat True ''0.7''\<rparr>"

section \<open>The scan\<close>

lemma run_sast_tool_exited:
  assumes "map_of (commands repo_path output_file) tool_name = Some argv"
    and "spawn w argv = Exited code took"
  shows "run_sast_tool w tool_name repo_path output_file s =
     (let s2 = s\<lparr>log := log s
                  @ [(INFO, ''Running '' @ tool_name @ '' on: '' @ repo_path),
                     (INFO, tool_name @ '' scan completed in '' @ took @ '' seconds.'')]\<rparr>
      in case files w output_file of
           Missing \<Rightarrow> (JNull, s2)
         | Unreadable e \<Rightarrow>
             (JNull, logging_error (''Error running '' @ tool_name @ '': '' @ e) s2)
         | Document d \<Rightarrow> (d, s2))"
  using assms
  by (simp add: run_sast_tool_def logging_info_def Let_def split: artifact.splits)

text \<open>
  C3, as amended. Whenever \<^verbatim>\<open>subprocess.run\<close> returns, the outcome of
  \<open>run_sast_tool\<close> is decided by the output file alone, never by the exit status: two
  runs that differ in the exit status only have the same outcome; when the file exists
  and decodes, the decoded document is returned, which is a success unless the document
  is \<^verbatim>\<open>null\<close>; when the file is missing or cannot be decoded, \<^verbatim>\<open>None\<close> is returned.
  When \<^verbatim>\<open>subprocess.run\<close> raises, \<^verbatim>\<open>None\<close> is returned whatever the file holds.
\<close>

theorem scan_outcome_ignores_exit_status:
  assumes "map_of (commands repo_path output_file) tool_name = Some argv"
  shows "(\<forall>code code' took w'.
            spawn w argv = Exited code took \<and> spawn w' argv = Exited code' took
          \<and> files w' output_file = files w output_file \<longrightarrow>
            run_sast_tool w tool_name repo_path output_file s
            = run_sast_tool w' tool_name repo_path output_file s)
       \<and> (\<forall>code took d.
            spawn w argv = Exited code took \<and> files w output_file = Document d \<longrightarrow>
            fst (run_sast_tool w tool_name repo_path output_file s) = d
          \<and> (fst (run_sast_tool w tool_name repo_path output_file s) = JNull) = (d = JNull))
       \<and> (\<forall>code took.
            spawn w argv = Exited code took \<and> files w output_file = Missing \<longrightarrow>
            fst (run_sast_tool w tool_name repo_path output_file s) = JNull)
       \<and> (\<forall>code took e.
            spawn w argv = Exited code took \<and> files w output_file = Unreadable e \<longrightarrow>
            fst (run_sast_tool w tool_name repo_path output_file s) = JNull)
       \<and> (\<forall>e. spawn w argv = FileNotFoundError e \<or> spawn w argv = SpawnRaised e \<longrightarrow>
            fst (run_sast_tool w tool_name repo_path output_file s) = JNull)"
proof (intro conjI allI impI)
  fix code code' took and w' :: world
  assume a: "spawn w argv = Exited code took \<and> spawn w' argv = Exited code' took
             \<and> files w' output_file = files w output_file"
  then have e: "spawn w argv = Exited code took" and e': "spawn w' argv = Exited code' took"
    and f: "files w' output_file = files w output_file"
    by blast+
  show "run_sast_tool w tool_name repo_path output_file s
        = run_sast_tool w' tool_name repo_path output_file s"
    by (simp add: run_sast_tool_exited [OF assms e] run_sast_tool_exited [OF assms e'] f)
next
  fix code took d
  assume a: "spawn w argv = Exited code took \<and> files w output_file = Document d"
  then have e: "spawn w argv = Exited code took" and f: "files w output_file = Document d"
    by blast+
  show r: "fst (run_sast_tool w tool_name repo_path output_file s) = d"
    by (simp add: run_sast_tool_exited [OF assms e] f Let_def)
  show "(fst (run_sast_tool w tool_name repo_path output_file s) = JNull) = (d = JNull)"
    by (simp add: r)
next
  fix code took
  assume a: "spawn w argv = Exited code took \<and> files w output_file = Missing"
  then have e: "spawn w argv = Exited code took" and f: "files w output_file = Missing"
    by blast+
  show "fst (run_sast_tool w tool_name repo_path output_file s) = JNull"
    by (simp add: run_sast_tool_exited [OF assms e] f Let_def)
next
  fix code took e
  assume a: "spawn w argv = Exited code took \<and> files w output_file = Unreadable e"
  then have x: "spawn w argv = Exited code took" and f: "files w output_file = Unreadable e"
    by blast+
  show "fst (run_sast_tool w tool_name repo_path output_file s) = JNull"
    by (simp add: run_sast_tool_exited [OF assms x] f Let_def)
next
  fix e
  assume "spawn w argv = FileNotFoundError e \<or> spawn w argv = SpawnRaised e"
  then show "fst (run_sast_tool w tool_name repo_path output_file s) = JNull"
    using assms by (auto simp: run_sast_tool_def)
qed

theorem scan_outcome_ignores_exit_status_witness:
  "map_of (commands ''/tmp/scan'' ''/tmp/scan/sast_results.json'') ''bandit'' = Some bandit_argv
   \<and> spawn (run_of Cloned (Exited 1 ''0.50'') (Document (JObj two_findings)) (\<lambda>n. answer_503))
        bandit_argv = Exited 1 ''0.50''
   \<and> spawn (run_of Cloned (Exited 0 ''0.50'') (Document (JObj two_findings)) (\<lambda>n. answer_503))
        bandit_argv = Exited 0 ''0.50''
   \<and> run_sast_tool (run_of Cloned (Exited 1 ''0.50'') (Document (JObj two_findings)) (\<lambda>n. answer_503))
        ''bandit'' ''/tmp/scan'' ''/tmp/scan/sast_results.json'' fresh
     = run_sast_tool (run_of Cloned (Exited 0 ''0.50'') (Document (JObj two_findings)) (\<lambda>n. answer_503))
        ''bandit'' ''/tmp/scan'' ''/tmp/scan/sast_results.json'' fresh
   \<and> fst (run_sast_tool (run_of Cloned (Exited 1 ''0.50'') (Document (JObj two_findings)) (\<lambda>n. answer_503))
        ''bandit'' ''/tmp/scan'' ''/tmp/scan/sast_results.json'' fresh) = JObj two_findings
   \<and> fst (run_sast_tool (run_of Cloned (Exited 1 ''0.50'') (Document (JObj two_findings)) (\<lambda>n. answer_503))
        ''bandit'' ''/tmp/scan'' ''/tmp/scan/sast_results.json'' fresh) \<noteq> JNull
   \<and> fst (run_sast_tool (run_of Cloned (Exited 0 ''0.50'') Missing (\<lambda>n. answer_503))
        ''bandit'' ''/tmp/scan'' ''/tmp/scan/sast_results.json'' fresh) = JNull
   \<and> fst (run_sast_tool (run_of Cloned (Exited 0 ''0.50'') (Unreadable ''Expecting value'')
                            (\<lambda>n. answer_503))
        ''bandit'' ''/tmp/scan'' ''/tmp/scan/sast_results.json'' fresh) = JNull
   \<and> fst (run_sast_tool (run_of Cloned (FileNotFoundError ''No such file or directory'')
                            (Document (JObj two_findings)) (\<lambda>n. answer_503))
        ''bandit'' ''/tmp/scan'' ''/tmp/scan/sast_results.json'' fresh) = JNull"
proof -
  let ?w1 = "run_of Cloned (Exited 1 ''0.50'') (Document (JObj two_findings)) (\<lambda>n. answer_503)"
  let ?w0 = "run_of Cloned (Exited 0 ''0.50'') (Document (JObj two_findings)) (\<lambda>n. answer_503)"
  let ?wm = "run_of Cloned (Exited 0 ''0.50'') Missing (\<lambda>n. answer_503)"
  let ?wu = "run_of Cloned (Exited 0 ''0.50'') (Unreadable ''Expecting value'') (\<lambda>n. answer_503)"
  let ?wn = "run_of Cloned (FileNotFoundError ''No such file or directory'')
               (Document (JObj two_findings)) (\<lambda>n. answer_503)"
  let ?out = "''/tmp/scan/sast_results.json''"
  have h1: "map_of (commands ''/tmp/scan'' ?out) ''bandit'' = Some bandit_argv"
    by (simp add: commands_def bandit_argv_def)
  have h2: "spawn ?w1 bandit_argv = Exited 1 ''0.50''"
    and h3: "spawn ?w0 bandit_argv = Exited 0 ''0.50''"
    and h4: "files ?w0 ?out = files ?w1 ?out"
    and f1: "files ?w1 ?out = Document (JObj two_findings)"
    and hm: "spawn ?wm bandit_argv = Exited 0 ''0.50''" "files ?wm ?out = Missing"
    and hu: "spawn ?wu bandit_argv = Exited 0 ''0.50''"
      "files ?wu ?out = Unreadable ''Expecting value''"
    and hn: "spawn ?wn bandit_argv = FileNotFoundError ''No such file or directory''"
    by (simp_all add: run_of_def)
  note th = scan_outcome_ignores_exit_status [OF h1]
  from th [of ?w1 fresh] h2 h3 h4 f1
  have a: "run_sast_tool ?w1 ''bandit'' ''/tmp/scan'' ?out fresh
           = run_sast_tool ?w0 ''bandit'' ''/tmp/scan'' ?out fresh"
    and b: "fst (run_sast_tool ?w1 ''bandit'' ''/tmp/scan'' ?out fresh) = JObj two_findings"
    by blast+
  from th [of ?wm fresh] hm
  have c: "fst (run_sast_tool ?wm ''bandit'' ''/tmp/scan'' ?out fresh) = JNull"
    by blast
  from th [of ?wu fresh] hu
  have d: "fst (run_sast_tool ?wu ''bandit'' ''/tmp/scan'' ?out fresh) = JNull"
    by blast
  from th [of ?wn fresh] hn
  have e: "fst (run_sast_tool ?wn ''bandit'' ''/tmp/scan'' ?out fresh) = JNull"
    by blast
  from h1 h2 h3 a b c d e show ?thesis
    by simp
qed

text \<open>
  C3, as stated, fails. The output file exists and decodes, yet the scan returns
  \<^verbatim>\<open>None\<close>: when \<^verbatim>\<open>subprocess.run\<close> raises after the tool wrote its report (here on
  decoding the captured output), and when the file holds \<^verbatim>\<open>null\<close>, a run that cannot be
  told from one that left no file.
\<close>

theorem decodable_artifact_without_success:
  "fst (run_sast_tool
          (run_of Cloned (SpawnRaised ''invalid start byte'') (Document (JObj two_findings))
             (\<lambda>n. answer_503))
          ''bandit'' ''/tmp/scan'' ''/tmp/scan/sast_results.json'' fresh) = JNull
   \<and> run_sast_tool (run_of Cloned (Exited 0 ''0.50'') (Document JNull) (\<lambda>n. answer_503))
        ''bandit'' ''/tmp/scan'' ''/tmp/scan/sast_results.json'' fresh
     = run_sast_tool (run_of Cloned (Exited 0 ''0.50'') Missing (\<lambda>n. answer_503))
        ''bandit'' ''/tmp/scan'' ''/tmp/scan/sast_results.json'' fresh"
  by (simp add: run_sast_tool_def commands_def run_of_def)

text \<open>
  C4, as amended. When the executable is not installed, \<open>run_sast_tool\<close> logs that the
  tool was not found and returns \<^verbatim>\<open>None\<close>; when the output file cannot be read or
  decoded, it logs an error of running the tool and returns \<^verbatim>\<open>None\<close>; a missing output
  file returns \<^verbatim>\<open>None\<close> as well. The two error records differ, so the failures are told
  apart in the log; the value the caller receives is the same.
\<close>

theorem scan_failures_differ_in_log_only:
  assumes "map_of (commands repo_path output_file) tool_name = Some argv"
  shows "(\<forall>e. spawn w argv = FileNotFoundError e \<longrightarrow>
            run_sast_tool w tool_name repo_path output_file s
            = (JNull, s\<lparr>log := log s
                 @ [(INFO, ''Running '' @ tool_name @ '' on: '' @ repo_path),
                    (ERROR, ''Error: '' @ quote @ tool_name @ quote
                            @ '' not found. Install it before running.'')]\<rparr>))
       \<and> (\<forall>code took e. spawn w argv = Exited code took
                \<and> files w output_file = Unreadable e \<longrightarrow>
            run_sast_tool w tool_name repo_path output_file s
            = (JNull, s\<lparr>log := log s
                 @ [(INFO, ''Running '' @ tool_name @ '' on: '' @ repo_path),
                    (INFO, tool_name @ '' scan completed in '' @ took @ '' seconds.''),
                    (ERROR, ''Error running '' @ tool_name @ '': '' @ e)]\<rparr>))
       \<and> (\<forall>code took. spawn w argv = Exited code took \<and> files w output_file = Missing \<longrightarrow>
            fst (run_sast_tool w tool_name repo_path output_file s) = JNull)
       \<and> (\<forall>e. ''Error: '' @ quote @ tool_name @ quote @ '' not found. Install it before running.''
              \<noteq> ''Error running '' @ tool_name @ '': '' @ e)"
  using assms
  by (auto simp: run_sast_tool_def logging_info_def logging_error_def Let_def)

theorem scan_failures_differ_in_log_only_witness:
  "map_of (commands ''/tmp/scan'' ''/tmp/scan/sast_results.json'') ''bandit'' = Some bandit_argv
   \<and> run_sast_tool (run_of Cloned (FileNotFoundError ''No such file or directory'') Missing
                       (\<lambda>n. answer_503))
        ''bandit'' ''/tmp/scan'' ''/tmp/scan/sast_results.json'' fresh
     = (JNull, \<lparr>log = [(INFO, ''Running bandit on: /tmp/scan''),
                       (ERROR, ''Error: '' @ quote @ ''bandit'' @ quote
                               @ '' not found. Install it before running.'')],
                sent = []\<rparr>)
   \<and> run_sast_tool (run_of Cloned (Exited 2 ''0.50'') (Unreadable ''Expecting value'')
                       (\<lambda>n. answer_503))
        ''bandit'' ''/tmp/scan'' ''/tmp/scan/sast_results.json'' fresh
     = (JNull, \<lparr>log = [(INFO, ''Running bandit on: /tmp/scan''),
                       (INFO, ''bandit scan completed in 0.50 seconds.''),
                       (ERROR, ''Error running bandit: Expecting value'')],
                sent = []\<rparr>)"
proof -
  let ?wn = "run_of Cloned (FileNotFoundError ''No such file or directory'') Missing
               (\<lambda>n. answer_503)"
  let ?wu = "run_of Cloned (Exited 2 ''0.50'') (Unreadable ''Expecting value'') (\<lambda>n. answer_503)"
  let ?out = "''/tmp/scan/sast_results.json''"
  have h1: "map_of (commands ''/tmp/scan'' ?out) ''bandit'' = Some bandit_argv"
    by (simp add: commands_def bandit_argv_def)
  have n: "spawn ?wn bandit_argv = FileNotFoundError ''No such file or directory''"
    and u: "spawn ?wu bandit_argv = Exited 2 ''0.50'' \<and> files ?wu ?out = Unreadable ''Expecting value''"
    by (simp_all add: run_of_def)
  from scan_failures_differ_in_log_only [OF h1, of ?wn fresh] n
  have a: "run_sast_tool ?wn ''bandit'' ''/tmp/scan'' ?out fresh
     = (JNull, fresh\<lparr>log := log fresh
          @ [(INFO, ''Running '' @ ''bandit'' @ '' on: '' @ ''/tmp/scan''),
             (ERROR, ''Error: '' @ quote @ ''bandit'' @ quote
                     @ '' not found. Install it before running.'')]\<rparr>)"
    by blast
  from scan_failures_differ_in_log_only [OF h1, of ?wu fresh] u
  have b: "run_sast_tool ?wu ''bandit'' ''/tmp/scan'' ?out fresh
     = (JNull, fresh\<lparr>log := log fresh
          @ [(INFO, ''Running '' @ ''bandit'' @ '' on: '' @ ''/tmp/scan''),
             (INFO, ''bandit'' @ '' scan completed in '' @ ''0.50'' @ '' seconds.''),
             (ERROR, ''Error running '' @ ''bandit'' @ '': '' @ ''Expecting value'')]\<rparr>)"
    by blast
  from h1 a b show ?thesis
    by (simp add: fresh_def)
qed

text \<open>
  C4, as stated, fails: the caller receives the same value when Bandit is not installed
  and when Bandit ran and left an output file that does not decode.
\<close>

theorem scan_failures_return_the_same:
  "fst (run_sast_tool (run_of Cloned (FileNotFoundError ''No such file or directory'') Missing
                         (\<lambda>n. answer_503))
          ''bandit'' ''/tmp/scan'' ''/tmp/scan/sast_results.json'' fresh)
   = fst (run_sast_tool (run_of Cloned (Exited 2 ''0.50'') (Unreadable ''Expecting value'')
                           (\<lambda>n. answer_503))
            ''bandit'' ''/tmp/scan'' ''/tmp/scan/sast_results.json'' fresh)"
  by (simp add: run_sast_tool_def commands_def run_of_def)

section \<open>The remediation client\<close>

lemma get_llm_suggestion_sent:
  "sent (snd (get_llm_suggestion w (JObj kvs) s)) = sent s @ [suggestion_request kvs]"
  by (simp add: get_llm_suggestion_def requests_post_def logging_info_def logging_error_def
           split: http_outcome.splits sum.splits json.splits)

lemma get_llm_suggestion_log:
  "\<exists>e. log (snd (get_llm_suggestion w (JObj kvs) s)) = log s @ [e]"
  by (simp add: get_llm_suggestion_def requests_post_def logging_info_def logging_error_def
           split: http_outcome.splits sum.splits json.splits)

lemma get_llm_suggestion_failed:
  "remediation_failed (http w (length (sent s)) (suggestion_request kvs))
     \<Longrightarrow> fst (get_llm_suggestion w (JObj kvs) s) = None"
  by (auto simp: get_llm_suggestion_def requests_post_def remediation_failed_def
                 malformed_body_def
           split: http_outcome.splits sum.splits json.splits)

lemma get_llm_suggestion_log_irrelevant:
  "fst (get_llm_suggestion w v (s\<lparr>log := l\<rparr>)) = fst (get_llm_suggestion w v s)"
  by (simp add: get_llm_suggestion_def requests_post_def
           split: http_outcome.splits sum.splits json.splits)

lemma get_llm_suggestion_depends:
  "length (sent s) = length (sent s')
     \<Longrightarrow> fst (get_llm_suggestion w v s) = fst (get_llm_suggestion w v s')"
  by (simp add: get_llm_suggestion_def requests_post_def
           split: http_outcome.splits sum.splits json.splits)

lemma strip_Nil: "strip [] = []"
  by (simp add: strip_def)

lemma last_dropWhile: "dropWhile P xs \<noteq> [] \<Longrightarrow> last (dropWhile P xs) = last xs"
  by (induction xs) (auto split: if_splits)

lemma strip_strip: "strip (strip t) = strip t"
proof -
  define u where "u = dropWhile is_space t"
  define r where "r = dropWhile is_space (rev u)"
  have v: "strip t = rev r"
    by (simp add: strip_def u_def r_def)
  have keep: "dropWhile is_space (rev r) = rev r"
  proof (cases "r = []")
    case True
    then show ?thesis by simp
  next
    case False
    then have "last r = last (rev u)"
      unfolding r_def by (rule last_dropWhile)
    moreover from False have "u \<noteq> []"
      by (auto simp: r_def)
    ultimately have "hd (rev r) = hd u"
      using False by (simp add: hd_rev last_rev)
    moreover from \<open>u \<noteq> []\<close> have "\<not> is_space (hd u)"
      unfolding u_def by (rule hd_dropWhile)
    ultimately show ?thesis
      using False by (cases "rev r") auto
  qed
  have "strip (rev r) = rev (dropWhile is_space r)"
    by (simp add: strip_def keep)
  also have "\<dots> = rev r"
    by (simp add: r_def)
  finally show ?thesis
    by (simp add: v)
qed

lemma get_llm_suggestion_answered:
  assumes "http w (length (sent s)) (suggestion_request kvs) = Responded r took"
    and "status_code r = 200"
    and "body r = Inr (JObj b)"
    and "dict_get b ''generated_text'' (JStr []) = JStr t"
  shows "fst (get_llm_suggestion w (JObj kvs) s) = Some (strip t)"
  using assms by (simp add: get_llm_suggestion_def requests_post_def)

text \<open>
  C5, as amended. For every finding, \<open>get_llm_suggestion\<close> issues exactly one HTTP request,
  whatever the answer: a POST of \<open>{"prompt": prompt}\<close> to the remediation service. There
  is no retry. The request is issued without a timeout argument.
\<close>

theorem one_request_per_finding:
  "sent (snd (get_llm_suggestion w (JObj kvs) s))
   = sent s @ [\<lparr>url = REMOTE_MODEL_URL, payload = JObj [(''prompt'', JStr (build_prompt kvs))],
                timeout = None\<rparr>]"
  by (simp add: get_llm_suggestion_sent suggestion_request_def)

text \<open>
  C5, as stated, fails: the one request sent for the hard-coded password finding carries
  no timeout.
\<close>

theorem request_without_timeout:
  "map timeout (sent (snd (get_llm_suggestion
      (run_of Cloned (Exited 1 ''0.50'') Missing (\<lambda>n. answer_text ''Use environment variables.''))
      (JObj password_finding) fresh))) = [None]"
  by (simp add: get_llm_suggestion_sent suggestion_request_def fresh_def)

text \<open>
  C6. The prompt is a fixed template over the finding's \<^verbatim>\<open>issue_text\<close>, \<^verbatim>\<open>filename\<close>
  and \<^verbatim>\<open>line_number\<close>, each shown as \<^verbatim>\<open>N/A\<close> when the finding has no such key, followed
  by the fixed instruction asking for a fix under 100 words; findings with the same
  entries yield the same prompt.
\<close>

theorem prompt_is_fixed_template:
  "build_prompt kvs =
     (let shown = (\<lambda>k. case map_of kvs k of None \<Rightarrow> ''N/A'' | Some v \<Rightarrow> py_str v)
      in ''Given this security finding: '' @ shown ''issue_text''
         @ '' in file '' @ shown ''filename'' @ '' at line '' @ shown ''line_number''
         @ '', generate a concise and correct security fix. Keep the response under 100 words.'')
   \<and> (map_of kvs = map_of kvs' \<longrightarrow> build_prompt kvs = build_prompt kvs')"
  by (simp add: build_prompt_def field_def dict_get_def py_str_def split: option.splits)

lemma str_int_42: "str_int 42 = ''42''"
  by code_simp

theorem prompt_is_fixed_template_witness:
  "map_of password_finding = map_of (rev password_finding)
   \<and> build_prompt (rev password_finding) =
       ''Given this security finding: hardcoded password in file app.py at line 42, generate a concise and correct security fix. Keep the response under 100 words.''
   \<and> build_prompt [(''check_id'', JStr ''x'')] =
       ''Given this security finding: N/A in file N/A at line N/A, generate a concise and correct security fix. Keep the response under 100 words.''"
proof -
  have m: "map_of password_finding = map_of (rev password_finding)"
    by (rule ext) (simp add: password_finding_def)
  have p: "build_prompt password_finding =
       ''Given this security finding: hardcoded password in file app.py at line 42, generate a concise and correct security fix. Keep the response under 100 words.''"
    using prompt_is_fixed_template [of password_finding password_finding]
    by (simp add: password_finding_def py_str_def str_int_42)
  have q: "build_prompt [(''check_id'', JStr ''x'')] =
       ''Given this security finding: N/A in file N/A at line N/A, generate a concise and correct security fix. Keep the response under 100 words.''"
    using prompt_is_fixed_template [of "[(''check_id'', JStr ''x'')]" "[]"]
    by simp
  from prompt_is_fixed_template [of password_finding "rev password_finding"] m
  have "build_prompt password_finding = build_prompt (rev password_finding)"
    by blast
  with m p q show ?thesis
    by simp
qed

text \<open>
  C10. When the service answers 200 with a JSON object that has no \<^verbatim>\<open>generated_text\<close>
  key, \<open>get_llm_suggestion\<close> returns the empty string, not \<^verbatim>\<open>None\<close>, and logs no error;
  the report then shows \<^verbatim>\<open>No suggestion available.\<close> for that finding.
\<close>

theorem missing_generated_text_is_unavailable:
  assumes "http w (length (sent s)) (suggestion_request kvs) = Responded r took"
    and "status_code r = 200"
    and "body r = Inr (JObj b)"
    and "map_of b ''generated_text'' = None"
  shows "fst (get_llm_suggestion w (JObj kvs) s) = Some []
       \<and> log (snd (get_llm_suggestion w (JObj kvs) s))
         = log s @ [(INFO, ''LLM suggestion generated in '' @ took @ '' seconds.'')]
       \<and> fst (report_finding w (JObj kvs) s) = Inr ()
       \<and> log (snd (report_finding w (JObj kvs) s))
         = log s @ [(INFO, severity_line kvs), (INFO, issue_line kvs), (INFO, file_line kvs),
                    (INFO, ''LLM suggestion generated in '' @ took @ '' seconds.''),
                    unavailable]"
  using assms
  by (simp add: report_finding_def get_llm_suggestion_def requests_post_def logging_info_def
                dict_get_def strip_Nil suggestion_line_def unavailable_def)

theorem missing_generated_text_is_unavailable_witness:
  "http (run_of Cloned (Exited 1 ''0.50'') Missing (\<lambda>n. answer_empty_object))
        (length (sent fresh)) (suggestion_request password_finding)
     = Responded \<lparr>status_code = 200, response_text = ''{}'', body = Inr (JObj [])\<rparr> ''0.20''
   \<and> fst (get_llm_suggestion (run_of Cloned (Exited 1 ''0.50'') Missing (\<lambda>n. answer_empty_object))
            (JObj password_finding) fresh) = Some []
   \<and> last (log (snd (report_finding
            (run_of Cloned (Exited 1 ''0.50'') Missing (\<lambda>n. answer_empty_object))
            (JObj password_finding) fresh)))
     = (INFO, ''Suggestion: No suggestion available.'' @ newline)"
proof -
  let ?w = "run_of Cloned (Exited 1 ''0.50'') Missing (\<lambda>n. answer_empty_object)"
  let ?r = "\<lparr>status_code = 200, response_text = ''{}'', body = Inr (JObj [])\<rparr>"
  have h: "http ?w (length (sent fresh)) (suggestion_request password_finding)
           = Responded ?r ''0.20''"
    by (simp add: run_of_def answer_empty_object_def)
  from missing_generated_text_is_unavailable [OF h, of "[]"]
  show ?thesis
    using h by (simp add: unavailable_def)
qed

section \<open>The report\<close>

lemma report_finding_dict:
  "fst (report_finding w (JObj kvs) s) = Inr ()"
  "sent (snd (report_finding w (JObj kvs) s)) = sent s @ [suggestion_request kvs]"
  "\<exists>e. log (snd (report_finding w (JObj kvs) s))
         = log s @ [(INFO, severity_line kvs), (INFO, issue_line kvs), (INFO, file_line kvs), e,
                    (INFO, suggestion_line (fst (get_llm_suggestion w (JObj kvs) s)))]"
proof -
  define s3 where
    "s3 = s\<lparr>log := log s @ [(INFO, severity_line kvs), (INFO, issue_line kvs),
                             (INFO, file_line kvs)]\<rparr>"
  define g where "g = get_llm_suggestion w (JObj kvs) s3"
  have r: "report_finding w (JObj kvs) s
           = (Inr (), logging_info (suggestion_line (fst g)) (snd g))"
    by (simp add: report_finding_def s3_def g_def logging_info_def split: prod.splits)
  show "fst (report_finding w (JObj kvs) s) = Inr ()"
    by (simp add: r)
  show "sent (snd (report_finding w (JObj kvs) s)) = sent s @ [suggestion_request kvs]"
    by (simp add: r g_def logging_info_def get_llm_suggestion_sent s3_def)
  obtain e where e: "log (snd g) = log s3 @ [e]"
    unfolding g_def using get_llm_suggestion_log by blast
  have v: "fst g = fst (get_llm_suggestion w (JObj kvs) s)"
    unfolding g_def s3_def by (rule get_llm_suggestion_log_irrelevant)
  have "log (snd (report_finding w (JObj kvs) s))
        = log s @ [(INFO, severity_line kvs), (INFO, issue_line kvs), (INFO, file_line kvs), e,
                   (INFO, suggestion_line (fst (get_llm_suggestion w (JObj kvs) s)))]"
    by (simp add: r logging_info_def e v s3_def)
  then show "\<exists>e. log (snd (report_finding w (JObj kvs) s))
         = log s @ [(INFO, severity_line kvs), (INFO, issue_line kvs), (INFO, file_line kvs), e,
                    (INFO, suggestion_line (fst (get_llm_suggestion w (JObj kvs) s)))]"
    by blast
qed

text \<open>
  The loop over a list of dicts: it ends normally, sends one request per finding in the
  order of the list, and appends five records per finding, the fourth being the one that
  \<open>get_llm_suggestion\<close> logs.
\<close>

lemma report_findings_dicts:
  assumes "\<forall>f \<in> set fs. is_dict f"
  shows "fst (report_findings w fs s) = Inr ()
       \<and> sent (snd (report_findings w fs s)) = sent s @ map (suggestion_request \<circ> items) fs
       \<and> (\<exists>ls. log (snd (report_findings w fs s)) = log s @ ls
              \<and> length ls = 5 * length fs
              \<and> (\<forall>i<length fs.
                    ls ! (5 * i) = (INFO, severity_line (items (fs ! i)))
                  \<and> ls ! (5 * i + 1) = (INFO, issue_line (items (fs ! i)))
                  \<and> ls ! (5 * i + 2) = (INFO, file_line (items (fs ! i)))
                  \<and> (\<forall>s'. length (sent s') = length (sent s) + i \<longrightarrow>
                        ls ! (5 * i + 4)
                        = (INFO, suggestion_line (fst (get_llm_suggestion w (fs ! i) s'))))))"
  using assms
proof (induction fs arbitrary: s)
  case Nil
  then show ?case by simp
next
  case (Cons f fs)
  from Cons.prems obtain kvs where f: "f = JObj kvs"
    by (cases f) auto
  define s1 where "s1 = snd (report_finding w f s)"
  have ok: "fst (report_finding w f s) = Inr ()"
    and sent1: "sent s1 = sent s @ [suggestion_request kvs]"
    unfolding s1_def f by (rule report_finding_dict)+
  obtain e where log1: "log s1 = log s
      @ [(INFO, severity_line kvs), (INFO, issue_line kvs), (INFO, file_line kvs), e,
         (INFO, suggestion_line (fst (get_llm_suggestion w (JObj kvs) s)))]"
    unfolding s1_def f using report_finding_dict(3) by blast
  have step: "report_findings w (f # fs) s = report_findings w fs s1"
    using ok by (cases "report_finding w f s") (simp add: s1_def)
  from Cons.prems have "\<forall>f \<in> set fs. is_dict f" by simp
  from Cons.IH [OF this, of s1] obtain ls where
    r: "fst (report_findings w fs s1) = Inr ()"
    and st: "sent (snd (report_findings w fs s1)) = sent s1 @ map (suggestion_request \<circ> items) fs"
    and lg: "log (snd (report_findings w fs s1)) = log s1 @ ls"
    and len: "length ls = 5 * length fs"
    and ix: "\<And>i. i < length fs \<Longrightarrow>
               ls ! (5 * i) = (INFO, severity_line (items (fs ! i)))
             \<and> ls ! (5 * i + 1) = (INFO, issue_line (items (fs ! i)))
             \<and> ls ! (5 * i + 2) = (INFO, file_line (items (fs ! i)))
             \<and> (\<forall>s'. length (sent s') = length (sent s1) + i \<longrightarrow>
                   ls ! (5 * i + 4)
                   = (INFO, suggestion_line (fst (get_llm_suggestion w (fs ! i) s'))))"
    by blast
  define hd5 where "hd5 = [(INFO, severity_line kvs), (INFO, issue_line kvs),
      (INFO, file_line kvs), e,
      (INFO, suggestion_line (fst (get_llm_suggestion w (JObj kvs) s)))]"
  have len5: "length hd5 = 5"
    by (simp add: hd5_def)
  have a: "fst (report_findings w (f # fs) s) = Inr ()"
    by (simp only: step r)
  have b: "sent (snd (report_findings w (f # fs) s))
           = sent s @ map (suggestion_request \<circ> items) (f # fs)"
    unfolding step by (simp add: st sent1 f)
  have c: "log (snd (report_findings w (f # fs) s)) = log s @ (hd5 @ ls)"
    unfolding step by (simp add: lg log1 hd5_def)
  have d: "length (hd5 @ ls) = 5 * length (f # fs)"
    by (simp add: len5 len)
  have e: "(hd5 @ ls) ! (5 * i) = (INFO, severity_line (items ((f # fs) ! i)))
         \<and> (hd5 @ ls) ! (5 * i + 1) = (INFO, issue_line (items ((f # fs) ! i)))
         \<and> (hd5 @ ls) ! (5 * i + 2) = (INFO, file_line (items ((f # fs) ! i)))
         \<and> (\<forall>s'. length (sent s') = length (sent s) + i \<longrightarrow>
               (hd5 @ ls) ! (5 * i + 4)
               = (INFO, suggestion_line (fst (get_llm_suggestion w ((f # fs) ! i) s'))))"
    if "i < length (f # fs)" for i
  proof (cases i)
    case 0
    have t: "(hd5 @ ls) ! (5 * 0) = (INFO, severity_line (items ((f # fs) ! 0)))"
      "(hd5 @ ls) ! (5 * 0 + 1) = (INFO, issue_line (items ((f # fs) ! 0)))"
      "(hd5 @ ls) ! (5 * 0 + 2) = (INFO, file_line (items ((f # fs) ! 0)))"
      by (simp_all add: hd5_def f)
    have n: "(hd5 @ ls) ! (5 * 0 + 4)
             = (INFO, suggestion_line (fst (get_llm_suggestion w ((f # fs) ! 0) s)))"
      by (simp add: hd5_def f)
    have "(hd5 @ ls) ! (5 * 0 + 4)
          = (INFO, suggestion_line (fst (get_llm_suggestion w ((f # fs) ! 0) s')))"
      if "length (sent s') = length (sent s) + 0" for s'
    proof -
      from that have "length (sent s) = length (sent s')" by simp
      from get_llm_suggestion_depends [OF this] show ?thesis
        by (simp only: n)
    qed
    with t show ?thesis
      unfolding 0 by blast
  next
    case (Suc j)
    with that have j: "j < length fs" by simp
    have nt: "(hd5 @ ls) ! (5 * Suc j + k) = ls ! (5 * j + k)" for k
      by (simp add: nth_append len5 add.commute)
    have nt0: "(hd5 @ ls) ! (5 * Suc j) = ls ! (5 * j)"
      using nt [of 0] by simp
    have sn: "length (sent s1) + j = length (sent s) + Suc j"
      by (simp add: sent1)
    have el: "(f # fs) ! Suc j = fs ! j"
      by simp
    show ?thesis
      unfolding Suc nt nt0 el using ix [OF j] unfolding sn by blast
  qed
  show ?case
    using a b c d e by blast
qed

lemma report_findings_log:
  assumes "\<forall>f \<in> set fs. is_dict f"
  shows "length (log (snd (report_findings w fs s))) = length (log s) + 5 * length fs"
    and "i < length fs \<Longrightarrow>
           log (snd (report_findings w fs s)) ! (length (log s) + 5 * i)
           = (INFO, severity_line (items (fs ! i)))"
    and "i < length fs \<Longrightarrow>
           log (snd (report_findings w fs s)) ! (length (log s) + 5 * i + 1)
           = (INFO, issue_line (items (fs ! i)))"
    and "i < length fs \<Longrightarrow>
           log (snd (report_findings w fs s)) ! (length (log s) + 5 * i + 2)
           = (INFO, file_line (items (fs ! i)))"
    and "i < length fs \<Longrightarrow> length (sent s') = length (sent s) + i \<Longrightarrow>
           log (snd (report_findings w fs s)) ! (length (log s) + 5 * i + 4)
           = (INFO, suggestion_line (fst (get_llm_suggestion w (fs ! i) s')))"
    and "j < length (log s) \<Longrightarrow> log (snd (report_findings w fs s)) ! j = log s ! j"
proof -
  from report_findings_dicts [OF assms, of w s] obtain ls where
    lg: "log (snd (report_findings w fs s)) = log s @ ls"
    and len: "length ls = 5 * length fs"
    and ix: "\<And>i. i < length fs \<Longrightarrow>
               ls ! (5 * i) = (INFO, severity_line (items (fs ! i)))
             \<and> ls ! (5 * i + 1) = (INFO, issue_line (items (fs ! i)))
             \<and> ls ! (5 * i + 2) = (INFO, file_line (items (fs ! i)))
             \<and> (\<forall>s'. length (sent s') = length (sent s) + i \<longrightarrow>
                   ls ! (5 * i + 4)
                   = (INFO, suggestion_line (fst (get_llm_suggestion w (fs ! i) s'))))"
    by blast
  have at: "(log s @ ls) ! (length (log s) + n) = ls ! n" for n
    by simp
  show "length (log (snd (report_findings w fs s))) = length (log s) + 5 * length fs"
    by (simp add: lg len)
  show "log (snd (report_findings w fs s)) ! (length (log s) + 5 * i)
        = (INFO, severity_line (items (fs ! i)))" if "i < length fs"
    unfolding lg at using ix [OF that] by blast
  show "log (snd (report_findings w fs s)) ! (length (log s) + 5 * i + 1)
        = (INFO, issue_line (items (fs ! i)))" if "i < length fs"
    unfolding lg add.assoc at using ix [OF that] by blast
  show "log (snd (report_findings w fs s)) ! (length (log s) + 5 * i + 2)
        = (INFO, file_line (items (fs ! i)))" if "i < length fs"
    unfolding lg add.assoc at using ix [OF that] by blast
  show "log (snd (report_findings w fs s)) ! (length (log s) + 5 * i + 4)
        = (INFO, suggestion_line (fst (get_llm_suggestion w (fs ! i) s')))"
    if "i < length fs" and "length (sent s') = length (sent s) + i"
    unfolding lg add.assoc at using ix [OF that(1)] that(2) by blast
  show "log (snd (report_findings w fs s)) ! j = log s ! j" if "j < length (log s)"
    unfolding lg using that by (simp add: nth_append)
qed

lemma print_results_dicts:
  assumes "map_of doc ''results'' = Some (JArr fs)"
  shows "print_results w tool (JObj doc) s
         = report_findings w fs (logging_info (report_header tool) s)"
proof -
  from assms have "(''results'', JArr fs) \<in> set doc"
    by (rule map_of_SomeD)
  then have k: "''results'' \<in> fst ` set doc" and n: "doc \<noteq> []"
    by force+
  show ?thesis
    using k n assms
    by (simp add: print_results_def py_contains_def py_getitem_def py_iter_def dict_get_def)
qed

text \<open>The pipeline up to the report, when the clone succeeds and the child process exits.\<close>

lemma main_scanned:
  assumes "clone w repo_url (temp_dir w) = Cloned"
    and "map_of (commands (temp_dir w) (os_path_join (temp_dir w) ''sast_results.json'')) tool
         = Some argv"
    and "spawn w argv = Exited code took"
    and "files w (os_path_join (temp_dir w) ''sast_results.json'') = a"
  shows "main w repo_url tool s =
     (let s2 = s\<lparr>log := log s
                  @ [(INFO, ''Cloning repository: '' @ repo_url @ '' into '' @ temp_dir w),
                     (INFO, ''Cloning successful.''),
                     (INFO, ''Running '' @ tool @ '' on: '' @ temp_dir w),
                     (INFO, tool @ '' scan completed in '' @ took @ '' seconds.'')]\<rparr>
      in case a of
           Document d \<Rightarrow>
             if truthy d then print_results w tool d s2
             else (Inr (), logging_info (newline @ ''No security findings detected.'') s2)
         | Missing \<Rightarrow> (Inr (), logging_info (newline @ ''No security findings detected.'') s2)
         | Unreadable e \<Rightarrow>
             (Inr (), logging_info (newline @ ''No security findings detected.'')
                        (logging_error (''Error running '' @ tool @ '': '' @ e) s2)))"
  using assms
  by (simp add: main_def clone_repo_def run_sast_tool_def logging_info_def logging_error_def
                Let_def split: artifact.splits)

lemma strip_use_env: "strip ''Use environment variables.'' = ''Use environment variables.''"
  by code_simp

lemma scan_path: "os_path_join ''/tmp/scan'' ''sast_results.json'' = ''/tmp/scan/sast_results.json''"
  by (simp add: os_path_join_def)

text \<open>
  C1. When the clone and the scan succeed and the scan document holds a list of findings,
  the pipeline ends normally whatever the remediation service does, with five log records
  per finding after the five of the preamble. For every finding whose request failed (the
  transport raised, the status is not 2xx, or the body is malformed), the suggestion call
  returns \<^verbatim>\<open>None\<close> instead of raising, and the entry of that finding ends with
  \<^verbatim>\<open>No suggestion available.\<close>; when every request fails, every entry does. That
  finding alone degrades: the entry of a finding whose own request was answered 200 with
  a text that is not blank ends with that text, whatever happened to the other requests.
\<close>

theorem remediation_failure_is_isolated:
  assumes "clone w repo_url (temp_dir w) = Cloned"
    and "map_of (commands (temp_dir w) (os_path_join (temp_dir w) ''sast_results.json'')) tool
         = Some argv"
    and "spawn w argv = Exited code took"
    and "files w (os_path_join (temp_dir w) ''sast_results.json'') = Document (JObj doc)"
    and "map_of doc ''results'' = Some (JArr fs)"
    and "\<forall>f \<in> set fs. is_dict f"
  shows "fst (main w repo_url tool s) = Inr ()
       \<and> length (log (snd (main w repo_url tool s))) = length (log s) + 5 + 5 * length fs
       \<and> (\<forall>i<length fs.
             remediation_failed
               (http w (length (sent s) + i) (suggestion_request (items (fs ! i)))) \<longrightarrow>
             (\<forall>s'. length (sent s') = length (sent s) + i \<longrightarrow>
                    fst (get_llm_suggestion w (fs ! i) s') = None)
             \<and> log (snd (main w repo_url tool s)) ! (length (log s) + 5 + 5 * i + 4)
               = unavailable)
       \<and> (\<forall>i<length fs. \<forall>r answered b t.
             http w (length (sent s) + i) (suggestion_request (items (fs ! i)))
               = Responded r answered
             \<and> status_code r = 200
             \<and> body r = Inr (JObj b)
             \<and> dict_get b ''generated_text'' (JStr []) = JStr t
             \<and> strip t \<noteq> [] \<longrightarrow>
             log (snd (main w repo_url tool s)) ! (length (log s) + 5 + 5 * i + 4)
             = (INFO, ''Suggestion: '' @ strip t @ newline))"
proof -
  define s2 where
    "s2 = s\<lparr>log := log s
              @ [(INFO, ''Cloning repository: '' @ repo_url @ '' into '' @ temp_dir w),
                 (INFO, ''Cloning successful.''),
                 (INFO, ''Running '' @ tool @ '' on: '' @ temp_dir w),
                 (INFO, tool @ '' scan completed in '' @ took @ '' seconds.'')]\<rparr>"
  define s3 where "s3 = logging_info (report_header tool) s2"
  from assms(5) have "doc \<noteq> []" by auto
  then have m: "main w repo_url tool s = report_findings w fs s3"
    using main_scanned [OF assms(1-4), of s] print_results_dicts [OF assms(5), of w tool s2]
    by (simp add: s2_def s3_def)
  have l3: "length (log s3) = length (log s) + 5" and n3: "sent s3 = sent s"
    by (simp_all add: s3_def s2_def logging_info_def)
  have line: "log (snd (main w repo_url tool s)) ! (length (log s) + 5 + 5 * i + 4)
              = (INFO, suggestion_line (fst (get_llm_suggestion w (fs ! i) s')))"
    if "i < length fs" and "length (sent s') = length (sent s) + i" for i s'
    unfolding m using report_findings_log(5) [OF assms(6) that(1), of s' s3 w] that(2)
    by (simp add: l3 n3)
  have a: "fst (main w repo_url tool s) = Inr ()"
    unfolding m using report_findings_dicts [OF assms(6)] by blast
  have b: "length (log (snd (main w repo_url tool s))) = length (log s) + 5 + 5 * length fs"
    unfolding m by (simp add: report_findings_log(1) [OF assms(6)] l3)
  have c: "(\<forall>s'. length (sent s') = length (sent s) + i \<longrightarrow>
                 fst (get_llm_suggestion w (fs ! i) s') = None)
         \<and> log (snd (main w repo_url tool s)) ! (length (log s) + 5 + 5 * i + 4) = unavailable"
    if i: "i < length fs"
      and f: "remediation_failed
                (http w (length (sent s) + i) (suggestion_request (items (fs ! i))))"
    for i
  proof -
    from i assms(6) have "is_dict (fs ! i)" by simp
    then obtain kvs where k: "fs ! i = JObj kvs"
      by (cases "fs ! i") auto
    have none: "fst (get_llm_suggestion w (fs ! i) s') = None"
      if "length (sent s') = length (sent s) + i" for s'
      using get_llm_suggestion_failed [of w s' kvs] f that by (simp add: k)
    define s' where "s' = s3\<lparr>sent := sent s3 @ map (suggestion_request \<circ> items) (take i fs)\<rparr>"
    have ls': "length (sent s') = length (sent s) + i"
      using i by (simp add: s'_def n3)
    have "log (snd (main w repo_url tool s)) ! (length (log s) + 5 + 5 * i + 4) = unavailable"
      using line [OF i ls'] none [OF ls'] by (simp add: suggestion_line_def unavailable_def)
    with none show ?thesis
      by blast
  qed
  have d: "log (snd (main w repo_url tool s)) ! (length (log s) + 5 + 5 * i + 4)
           = (INFO, ''Suggestion: '' @ strip t @ newline)"
    if i: "i < length fs"
      and h: "http w (length (sent s) + i) (suggestion_request (items (fs ! i)))
              = Responded r answered"
        "status_code r = 200" "body r = Inr (JObj b)"
        "dict_get b ''generated_text'' (JStr []) = JStr t"
      and t: "strip t \<noteq> []"
    for i r answered b t
  proof -
    from i assms(6) have "is_dict (fs ! i)" by simp
    then obtain kvs where k: "fs ! i = JObj kvs"
      by (cases "fs ! i") auto
    define s' where "s' = s3\<lparr>sent := sent s3 @ map (suggestion_request \<circ> items) (take i fs)\<rparr>"
    have ls': "length (sent s') = length (sent s) + i"
      using i by (simp add: s'_def n3)
    from h(1) have "http w (length (sent s')) (suggestion_request kvs) = Responded r answered"
      by (simp add: ls' k)
    from get_llm_suggestion_answered [OF this h(2-4)]
    have "fst (get_llm_suggestion w (fs ! i) s') = Some (strip t)"
      by (simp add: k)
    with line [OF i ls'] t show ?thesis
      by (simp add: suggestion_line_def strip_strip)
  qed
  from a b c d show ?thesis
    by blast
qed

theorem remediation_failure_is_isolated_witness:
  "clone service_flaky example_url (temp_dir service_flaky) = Cloned
   \<and> spawn service_flaky bandit_argv = Exited 1 ''0.50''
   \<and> is_dict (JObj password_finding) \<and> is_dict (JObj eval_finding)
   \<and> http service_flaky 0 (suggestion_request password_finding)
     = answer_text ''Use environment variables.''
   \<and> remediation_failed (http service_flaky 1 (suggestion_request eval_finding))
   \<and> fst (main service_flaky example_url ''bandit'' fresh) = Inr ()
   \<and> length (log (snd (main service_flaky example_url ''bandit'' fresh))) = 15
   \<and> log (snd (main service_flaky example_url ''bandit'' fresh)) ! 9
     = (INFO, ''Suggestion: Use environment variables.'' @ newline)
   \<and> log (snd (main service_flaky example_url ''bandit'' fresh)) ! 14
     = (INFO, ''Suggestion: No suggestion available.'' @ newline)
   \<and> remediation_failed (http service_down 0 (suggestion_request password_finding))
   \<and> remediation_failed (http service_down 1 (suggestion_request eval_finding))
   \<and> fst (main service_down example_url ''bandit'' fresh) = Inr ()
   \<and> log (snd (main service_down example_url ''bandit'' fresh)) ! 9
     = (INFO, ''Suggestion: No suggestion available.'' @ newline)
   \<and> log (snd (main service_down example_url ''bandit'' fresh)) ! 14
     = (INFO, ''Suggestion: No suggestion available.'' @ newline)"
proof -
  let ?fs = "[JObj password_finding, JObj eval_finding]"
  let ?r = "\<lparr>status_code = 200, response_text = ''ok'',
             body = Inr (JObj [(''generated_text'', JStr ''Use environment variables.'')])\<rparr>"
  have h5: "map_of two_findings ''results'' = Some (JArr ?fs)"
    by (simp add: two_findings_def)
  have h6: "\<forall>f \<in> set ?fs. is_dict f"
    by simp
  have hyps: "temp_dir w = ''/tmp/scan''"
    "clone w example_url (temp_dir w) = Cloned"
    "map_of (commands (temp_dir w) (os_path_join (temp_dir w) ''sast_results.json''))
       ''bandit'' = Some bandit_argv"
    "spawn w bandit_argv = Exited 1 ''0.50''"
    "files w (os_path_join (temp_dir w) ''sast_results.json'') = Document (JObj two_findings)"
    if "w = service_flaky \<or> w = service_down" for w
    using that
    by (auto simp: service_flaky_def service_down_def run_of_def scan_path commands_def
                   bandit_argv_def)
  have fl: "service_flaky = service_flaky \<or> service_flaky = service_down"
    and dn: "service_down = service_flaky \<or> service_down = service_down"
    by simp_all
  have g0: "http service_flaky 0 (suggestion_request password_finding) = Responded ?r ''0.80''"
    by (simp add: service_flaky_def run_of_def answer_text_def)
  have g1: "remediation_failed (http service_flaky 1 (suggestion_request eval_finding))"
    by (simp add: service_flaky_def run_of_def answer_503_def remediation_failed_def)
  have f0: "remediation_failed (http service_down 0 (suggestion_request password_finding))"
    and f1: "remediation_failed (http service_down 1 (suggestion_request eval_finding))"
    by (simp_all add: service_down_def run_of_def answer_503_def remediation_failed_def)
  note fl_thm = remediation_failure_is_isolated
    [OF hyps(2) [OF fl] hyps(3) [OF fl] hyps(4) [OF fl] hyps(5) [OF fl] h5 h6, of fresh]
  note dn_thm = remediation_failure_is_isolated
    [OF hyps(2) [OF dn] hyps(3) [OF dn] hyps(4) [OF dn] hyps(5) [OF dn] h5 h6, of fresh]
  from fl_thm
  have a: "fst (main service_flaky example_url ''bandit'' fresh) = Inr ()"
    and b: "length (log (snd (main service_flaky example_url ''bandit'' fresh)))
            = length (log fresh) + 5 + 5 * length ?fs"
    and c: "\<And>i. i < length ?fs \<Longrightarrow>
              remediation_failed
                (http service_flaky (length (sent fresh) + i)
                   (suggestion_request (items (?fs ! i)))) \<Longrightarrow>
              log (snd (main service_flaky example_url ''bandit'' fresh))
                ! (length (log fresh) + 5 + 5 * i + 4) = unavailable"
    and d: "\<And>i r answered b t. i < length ?fs \<Longrightarrow>
              http service_flaky (length (sent fresh) + i) (suggestion_request (items (?fs ! i)))
                = Responded r answered \<Longrightarrow>
              status_code r = 200 \<Longrightarrow> body r = Inr (JObj b) \<Longrightarrow>
              dict_get b ''generated_text'' (JStr []) = JStr t \<Longrightarrow> strip t \<noteq> [] \<Longrightarrow>
              log (snd (main service_flaky example_url ''bandit'' fresh))
                ! (length (log fresh) + 5 + 5 * i + 4)
              = (INFO, ''Suggestion: '' @ strip t @ newline)"
    by blast+
  from d [of 0 ?r "''0.80''" "[(''generated_text'', JStr ''Use environment variables.'')]"
            "''Use environment variables.''"] g0
  have d0: "log (snd (main service_flaky example_url ''bandit'' fresh)) ! 9
            = (INFO, ''Suggestion: Use environment variables.'' @ newline)"
    by (simp add: fresh_def dict_get_def strip_use_env)
  from c [of 1] g1
  have c1: "log (snd (main service_flaky example_url ''bandit'' fresh)) ! 14 = unavailable"
    by (simp add: fresh_def)
  from b have b': "length (log (snd (main service_flaky example_url ''bandit'' fresh))) = 15"
    by (simp add: fresh_def)
  from dn_thm
  have a2: "fst (main service_down example_url ''bandit'' fresh) = Inr ()"
    and c2: "\<And>i. i < length ?fs \<Longrightarrow>
              remediation_failed
                (http service_down (length (sent fresh) + i)
                   (suggestion_request (items (?fs ! i)))) \<Longrightarrow>
              log (snd (main service_down example_url ''bandit'' fresh))
                ! (length (log fresh) + 5 + 5 * i + 4) = unavailable"
    by blast+
  from c2 [of 0] f0
  have e0: "log (snd (main service_down example_url ''bandit'' fresh)) ! 9 = unavailable"
    by (simp add: fresh_def)
  from c2 [of 1] f1
  have e1: "log (snd (main service_down example_url ''bandit'' fresh)) ! 14 = unavailable"
    by (simp add: fresh_def)
  from hyps(2) [OF fl] hyps(4) [OF fl] g0 g1 a b' d0 c1 f0 f1 a2 e0 e1 show ?thesis
    by (simp add: unavailable_def answer_text_def)
qed

text \<open>
  C2. The report follows the findings list: after the header, the \<open>i\<close>-th block of five
  records shows the severity, issue and file of the \<open>i\<close>-th finding and the suggestion
  that \<open>get_llm_suggestion\<close> returns for that finding as the \<open>i\<close>-th request; the
  requests are sent in the order of the list, one per finding, none dropped.
\<close>

theorem report_follows_findings_order:
  assumes "map_of doc ''results'' = Some (JArr fs)"
    and "\<forall>f \<in> set fs. is_dict f"
  shows "fst (print_results w tool (JObj doc) s) = Inr ()
       \<and> length (log (snd (print_results w tool (JObj doc) s)))
         = length (log s) + 1 + 5 * length fs
       \<and> sent (snd (print_results w tool (JObj doc) s))
         = sent s @ map (suggestion_request \<circ> items) fs
       \<and> (\<forall>i<length fs.
             log (snd (print_results w tool (JObj doc) s)) ! (length (log s) + 1 + 5 * i)
             = (INFO, severity_line (items (fs ! i)))
           \<and> log (snd (print_results w tool (JObj doc) s)) ! (length (log s) + 1 + 5 * i + 1)
             = (INFO, issue_line (items (fs ! i)))
           \<and> log (snd (print_results w tool (JObj doc) s)) ! (length (log s) + 1 + 5 * i + 2)
             = (INFO, file_line (items (fs ! i)))
           \<and> (\<forall>s'. length (sent s') = length (sent s) + i \<longrightarrow>
                 log (snd (print_results w tool (JObj doc) s)) ! (length (log s) + 1 + 5 * i + 4)
                 = (INFO, suggestion_line (fst (get_llm_suggestion w (fs ! i) s')))))"
proof -
  define s1 where "s1 = logging_info (report_header tool) s"
  have m: "print_results w tool (JObj doc) s = report_findings w fs s1"
    unfolding s1_def by (rule print_results_dicts [OF assms(1)])
  have l1: "length (log s1) = length (log s) + 1" and n1: "sent s1 = sent s"
    by (simp_all add: s1_def logging_info_def)
  note d = report_findings_dicts [OF assms(2), where w = w and s = s1]
  note g = report_findings_log [OF assms(2), where w = w and s = s1]
  have a: "fst (print_results w tool (JObj doc) s) = Inr ()"
    unfolding m using d by blast
  have b: "length (log (snd (print_results w tool (JObj doc) s)))
           = length (log s) + 1 + 5 * length fs"
    unfolding m by (simp add: g(1) l1)
  have c: "sent (snd (print_results w tool (JObj doc) s))
           = sent s @ map (suggestion_request \<circ> items) fs"
    unfolding m using d by (simp add: n1)
  have e: "log (snd (print_results w tool (JObj doc) s)) ! (length (log s) + 1 + 5 * i)
             = (INFO, severity_line (items (fs ! i)))
         \<and> log (snd (print_results w tool (JObj doc) s)) ! (length (log s) + 1 + 5 * i + 1)
             = (INFO, issue_line (items (fs ! i)))
         \<and> log (snd (print_results w tool (JObj doc) s)) ! (length (log s) + 1 + 5 * i + 2)
             = (INFO, file_line (items (fs ! i)))
         \<and> (\<forall>s'. length (sent s') = length (sent s) + i \<longrightarrow>
               log (snd (print_results w tool (JObj doc) s)) ! (length (log s) + 1 + 5 * i + 4)
               = (INFO, suggestion_line (fst (get_llm_suggestion w (fs ! i) s'))))"
    if i: "i < length fs" for i
    unfolding m using g(2) [OF i] g(3) [OF i] g(4) [OF i] g(5) [OF i]
    by (simp add: l1 n1)
  from a b c e show ?thesis
    by blast
qed

theorem report_follows_findings_order_witness:
  "map_of two_findings ''results'' = Some (JArr [JObj password_finding, JObj eval_finding])
   \<and> is_dict (JObj password_finding) \<and> is_dict (JObj eval_finding)
   \<and> fst (print_results service_flaky ''bandit'' (JObj two_findings) fresh) = Inr ()
   \<and> length (log (snd (print_results service_flaky ''bandit'' (JObj two_findings) fresh))) = 11
   \<and> map (snd \<circ> (!) (log (snd (print_results service_flaky ''bandit'' (JObj two_findings) fresh))))
         [2, 5, 7, 10]
     = [''Issue: hardcoded password'',
        ''Suggestion: Use environment variables.'' @ newline,
        ''Issue: use of eval'',
        ''Suggestion: No suggestion available.'' @ newline]
   \<and> map payload (sent (snd (print_results service_flaky ''bandit'' (JObj two_findings) fresh)))
     = [JObj [(''prompt'', JStr (build_prompt password_finding))],
        JObj [(''prompt'', JStr (build_prompt eval_finding))]]"
proof -
  let ?w = service_flaky
  let ?fs = "[JObj password_finding, JObj eval_finding]"
  let ?L = "log (snd (print_results ?w ''bandit'' (JObj two_findings) fresh))"
  have h1: "map_of two_findings ''results'' = Some (JArr ?fs)"
    by (simp add: two_findings_def)
  have h2: "\<forall>f \<in> set ?fs. is_dict f"
    by simp
  have g0: "fst (get_llm_suggestion ?w (JObj password_finding) fresh)
            = Some ''Use environment variables.''"
    by (simp add: get_llm_suggestion_def requests_post_def fresh_def service_flaky_def
                  run_of_def answer_text_def dict_get_def strip_use_env)
  have g1: "fst (get_llm_suggestion ?w (JObj eval_finding)
                   (fresh\<lparr>sent := [suggestion_request password_finding]\<rparr>)) = None"
    by (simp add: get_llm_suggestion_def requests_post_def fresh_def service_flaky_def
                  run_of_def answer_503_def)
  from report_follows_findings_order [OF h1 h2, of ?w "''bandit''" fresh]
  have a: "fst (print_results ?w ''bandit'' (JObj two_findings) fresh) = Inr ()"
    and b: "length ?L = length (log fresh) + 1 + 5 * length ?fs"
    and c: "sent (snd (print_results ?w ''bandit'' (JObj two_findings) fresh))
            = sent fresh @ map (suggestion_request \<circ> items) ?fs"
    and e: "\<And>i. i < length ?fs \<Longrightarrow>
              ?L ! (length (log fresh) + 1 + 5 * i + 1) = (INFO, issue_line (items (?fs ! i)))"
    and f: "\<And>i s'. i < length ?fs \<Longrightarrow> length (sent s') = length (sent fresh) + i \<Longrightarrow>
              ?L ! (length (log fresh) + 1 + 5 * i + 4)
              = (INFO, suggestion_line (fst (get_llm_suggestion ?w (?fs ! i) s')))"
    by blast+
  from e [of 0] have l2: "?L ! 2 = (INFO, ''Issue: hardcoded password'')"
    by (simp add: fresh_def issue_line_def field_def dict_get_def py_str_def password_finding_def
                  numeral_2_eq_2)
  from e [of 1] have l7: "?L ! 7 = (INFO, ''Issue: use of eval'')"
    by (simp add: fresh_def issue_line_def field_def dict_get_def py_str_def eval_finding_def)
  from f [of 0 fresh] have l5: "?L ! 5 = (INFO, ''Suggestion: Use environment variables.'' @ newline)"
    by (simp add: g0 suggestion_line_def strip_use_env) (simp add: fresh_def)
  from f [of 1 "fresh\<lparr>sent := [suggestion_request password_finding]\<rparr>"]
  have l10: "?L ! 10 = (INFO, ''Suggestion: No suggestion available.'' @ newline)"
    by (simp add: g1 suggestion_line_def) (simp add: fresh_def)
  from b have b': "length ?L = 11"
    by (simp add: fresh_def)
  from c have c': "map payload (sent (snd (print_results ?w ''bandit'' (JObj two_findings) fresh)))
     = [JObj [(''prompt'', JStr (build_prompt password_finding))],
        JObj [(''prompt'', JStr (build_prompt eval_finding))]]"
    by (simp add: fresh_def suggestion_request_def)
  from h1 a b' c' l2 l5 l7 l10 show ?thesis
    by simp
qed

section \<open>The pipeline\<close>





text \<open>
  C8: what the code does where the claim fails. A scan that succeeds with an empty list
  of findings logs the report header and nothing after it, no summary line; the line
  \<^verbatim>\<open>No security findings detected.\<close> is logged when the tool is not installed.
\<close>

theorem empty_findings_render_header_only:
  "main (run_of Cloned (Exited 0 ''0.50'') (Document (JObj clean_report)) (\<lambda>n. answer_503))
        example_url ''bandit'' fresh
   = (Inr (), \<lparr>log = [(INFO, ''Cloning repository: https://example.org/app.git into /tmp/scan''),
                      (INFO, ''Cloning successful.''),
                      (INFO, ''Running bandit on: /tmp/scan''),
                      (INFO, ''bandit scan completed in 0.50 seconds.''),
                      (INFO, newline @ ''--- BANDIT Scan Results with LLM Suggestions ---'')],
               sent = []\<rparr>)
   \<and> main (run_of Cloned (FileNotFoundError ''No such file or directory'') Missing
             (\<lambda>n. answer_503))
        example_url ''bandit'' fresh
   = (Inr (), \<lparr>log = [(INFO, ''Cloning repository: https://example.org/app.git into /tmp/scan''),
                      (INFO, ''Cloning successful.''),
                      (INFO, ''Running bandit on: /tmp/scan''),
                      (ERROR, ''Error: '' @ quote @ ''bandit'' @ quote
                              @ '' not found. Install it before running.''),
                      (INFO, newline @ ''No security findings detected.'')],
               sent = []\<rparr>)"
proof -
  have u: "upper ''bandit'' = ''BANDIT''"
    by code_simp
  show ?thesis
    by (simp add: main_def clone_repo_def run_sast_tool_def print_results_def run_of_def
                  commands_def scan_path clean_report_def py_contains_def py_getitem_def
                  py_iter_def dict_get_def logging_info_def logging_error_def fresh_def
                  example_url_def report_header_def u)
qed

section \<open>The remediation service\<close>

lemma generate_text_success:
  assumes "fst (generate_text exc_str w req s) = Inr out"
  shows "\<exists>t. out = JObj [(''generated_text'', JStr (prompt req @ t))]"
  using assms
  by (auto simp: generate_text_def requests_post_def Let_def
           split: http_outcome.splits raised.splits sum.splits json.splits if_splits)

text \<open>
  C9. When the backend answers 200 with a JSON object whose \<^verbatim>\<open>response\<close> is a string
  (the empty string when the key is absent), \<^verbatim>\<open>POST /generate\<close> returns
  \<^verbatim>\<open>generated_text\<close> equal to the request's prompt followed by that continuation; and
  whenever the handler returns at all, the prompt is a prefix of \<^verbatim>\<open>generated_text\<close>.
\<close>

theorem generate_text_echoes_prompt:
  assumes "http w (length (sent s)) (ollama_request req) = Responded r took"
    and "status_code r = 200"
    and "body r = Inr (JObj d)"
    and "dict_get d ''response'' (JStr []) = JStr continuation"
  shows "fst (generate_text exc_str w req s)
         = Inr (JObj [(''generated_text'', JStr (prompt req @ continuation))])
       \<and> (\<forall>out. fst (generate_text exc_str w req s) = Inr out \<longrightarrow>
             (\<exists>t. out = JObj [(''generated_text'', JStr (prompt req @ t))]))"
proof
  show "fst (generate_text exc_str w req s)
        = Inr (JObj [(''generated_text'', JStr (prompt req @ continuation))])"
    using assms
    by (simp add: generate_text_def requests_post_def logging_info_def py_len_def Let_def)
  show "\<forall>out. fst (generate_text exc_str w req s) = Inr out \<longrightarrow>
          (\<exists>t. out = JObj [(''generated_text'', JStr (prompt req @ t))])"
    using generate_text_success by blast
qed

theorem generate_text_echoes_prompt_witness:
  "http (run_of Cloned (Exited 0 ''0'') Missing (\<lambda>n. ollama_says ''Use environment variables.''))
        (length (sent fresh)) (ollama_request fix_request)
     = ollama_says ''Use environment variables.''
   \<and> fst (generate_text (\<lambda>c d. d)
            (run_of Cloned (Exited 0 ''0'') Missing (\<lambda>n. ollama_says ''Use environment variables.''))
            fix_request fresh)
     = Inr (JObj [(''generated_text'', JStr ''Fix: Use environment variables.'')])"
proof -
  let ?w = "run_of Cloned (Exited 0 ''0'') Missing (\<lambda>n. ollama_says ''Use environment variables.'')"
  let ?r = "\<lparr>status_code = 200, response_text = ''ok'',
             body = Inr (JObj [(''model'', JStr ''llama2''),
                               (''response'', JStr ''Use environment variables.'')])\<rparr>"
  have h: "http ?w (length (sent fresh)) (ollama_request fix_request) = Responded ?r ''2.00''"
    by (simp add: run_of_def ollama_says_def)
  have g: "dict_get [(''model'', JStr ''llama2''), (''response'', JStr ''Use environment variables.'')]
             ''response'' (JStr []) = JStr ''Use environment variables.''"
    by (simp add: dict_get_def)
  from generate_text_echoes_prompt [OF h _ _ g, of "\<lambda>c d. d"]
  show ?thesis
    using h by (simp add: fix_request_def ollama_says_def)
qed

end
